theory Spec2Isabelle
  imports Main
begin

section \<open>The belongsTo association declarations (lib/associations/belongs-to.d.ts)\<close>

text \<open>
  The source is a TypeScript declaration file: three option interfaces, three call
  signatures (the get, set and create mixins), one class and a default export. It has
  no executable body, so the embedding is one of declarations: a TypeScript type is a
  value of \<open>ty\<close>, a generic declaration is a HOL function of its type arguments, an
  interface is its heritage clause and its body, a call signature is its parameter
  list and its return type. What a declaration admits is read through a small
  semantics: \<open>has_type\<close> says which runtime values inhabit a type, \<open>accepts_args\<close>
  which argument lists a parameter list admits.

  The declarations imported from \<open>./base\<close>, \<open>../model\<close>, \<open>../data-types\<close> and
  \<open>../promise\<close> are not part of the file. Those that are extended
  (\<open>AssociationOptions\<close>, \<open>SaveOptions\<close>, \<open>CreateOptions\<close>, \<open>Association\<close>)
  are parameters of the declarations that extend them, given as their member lists;
  those that are only mentioned (\<open>DataType\<close>, \<open>Promise\<close>,
  \<open>SingleAssociationAccessors\<close>) are opaque named types. The constraints on type
  parameters (\<open>TInstance extends Instance\<close> and the like) are not modelled: a type
  parameter ranges over all of \<open>ty\<close>.
\<close>

subsection \<open>Types and values\<close>

datatype ty =
    TAny
  | TString
  | TNumber
  | TBoolean
  | TVoid
  | TNull
  | TUndefined
  | TUnion ty ty
  | TRef string "ty list"
  | TObject "member list"
  | TPartial ty
and member = Member (mname: string) (optional: bool) (mtype: ty)

datatype val =
    VUndefined
  | VNull
  | VStr string
  | VNum int
  | VBool bool
  | VObj "(string \<times> val) list"
  | VOpaque string "ty list"

text \<open>
  \<open>TRef n args\<close> is a reference to an imported type whose declaration is not in the
  file, \<open>VOpaque n args\<close> a value known only to be of that type. \<open>TPartial t\<close> is
  \<open>Partial<t>\<close> for a type \<open>t\<close> whose members are not known. An object value is its
  list of properties.
\<close>

fun nullish :: "val \<Rightarrow> bool" where
  "nullish VUndefined = True"
| "nullish VNull = True"
| "nullish _ = False"

text \<open>
  The compiler option \<open>strictNullChecks\<close> is chosen by the project that consumes the
  declarations, so it is a parameter, \<open>strict\<close>. Without it \<open>null\<close> and \<open>undefined\<close>
  belong to every type.
\<close>

definition lenient :: "bool \<Rightarrow> val \<Rightarrow> bool" where
  "lenient strict v = (nullish v \<and> \<not> strict)"

text \<open>
  An object type is structural: a value inhabits it when each declared member is
  either present with a value of the member's type, or optional and absent (or
  \<open>undefined\<close>). Properties beyond the declared ones are not looked at, and only object
  values are taken to inhabit an object type. Two checks of the compiler on such
  surplus properties are therefore not part of \<open>has_type\<close>: the excess property check
  on a fresh object literal, and the weak type check, which refuses a value with
  properties for a type whose members are all optional when none of the value's
  properties is declared by the type. Neither check can refuse a record all of whose
  properties are declared members and hold no record themselves (\<open>declared_only\<close>),
  so where a theorem below derives that a record is admitted from what the record
  holds, it is stated of such records.

  A value of an opaque type \<open>t\<close> is also of type \<open>Partial<t>\<close>, and so is the empty
  record: the type parameters that \<open>Partial\<close> is applied to in this file extend the
  interface \<open>Instance\<close>.
\<close>

fun has_type :: "bool \<Rightarrow> val \<Rightarrow> ty \<Rightarrow> bool"
and has_members :: "bool \<Rightarrow> (string \<times> val) list \<Rightarrow> member list \<Rightarrow> bool"
and has_member :: "bool \<Rightarrow> (string \<times> val) list \<Rightarrow> member \<Rightarrow> bool"
where
  "has_type strict v TAny = True"
| "has_type strict v TString = (case v of VStr _ \<Rightarrow> True | _ \<Rightarrow> lenient strict v)"
| "has_type strict v TNumber = (case v of VNum _ \<Rightarrow> True | _ \<Rightarrow> lenient strict v)"
| "has_type strict v TBoolean = (case v of VBool _ \<Rightarrow> True | _ \<Rightarrow> lenient strict v)"
| "has_type strict v TVoid = (v = VUndefined \<or> lenient strict v)"
| "has_type strict v TNull = (v = VNull \<or> lenient strict v)"
| "has_type strict v TUndefined = (v = VUndefined \<or> lenient strict v)"
| "has_type strict v (TUnion a b) = (has_type strict v a \<or> has_type strict v b)"
| "has_type strict v (TRef n as) =
     (case v of VOpaque m bs \<Rightarrow> m = n \<and> bs = as | _ \<Rightarrow> lenient strict v)"
| "has_type strict v (TObject ms) =
     (case v of VObj fs \<Rightarrow> has_members strict fs ms | _ \<Rightarrow> lenient strict v)"
| "has_type strict v (TPartial t) = (v = VObj [] \<or> has_type strict v t)"
| "has_members strict fs [] = True"
| "has_members strict fs (m # ms) = (has_member strict fs m \<and> has_members strict fs ms)"
| "has_member strict fs (Member n opt t) =
     (case map_of fs n of
        None \<Rightarrow> opt
      | Some v \<Rightarrow> (opt \<and> v = VUndefined) \<or> has_type strict v t)"

text \<open>
  Every property of the record is a declared member, and none holds a record of its
  own (on a nested record the two checks would apply again, one level down).
\<close>

fun is_record :: "val \<Rightarrow> bool" where
  "is_record (VObj fs) = True"
| "is_record _ = False"

definition declared_only :: "(string \<times> val) list \<Rightarrow> member list \<Rightarrow> bool" where
  "declared_only fs ms =
     list_all (\<lambda>p. fst p \<in> set (map mname ms) \<and> \<not> is_record (snd p)) fs"

subsection \<open>Interfaces, call signatures, classes\<close>

text \<open>
  \<open>interface I extends P1, P2 { body }\<close>: the members of \<open>I\<close> are those of its
  parents and those of its body. A value inhabits \<open>I\<close> when it has all of them.
\<close>

record interface_decl =
  heritage :: "member list list"
  body :: "member list"

definition members_of :: "interface_decl \<Rightarrow> member list" where
  "members_of d = concat (heritage d) @ body d"

definition interface_type :: "interface_decl \<Rightarrow> ty" where
  "interface_type d = TObject (members_of d)"

text \<open>
  A parameter \<open>name?: T\<close> is optional: its argument may be left out or be
  \<open>undefined\<close>. An argument list is admitted when it is no longer than the parameter
  list, every argument given has its parameter's type, and every parameter left
  without an argument is optional.
\<close>

datatype param = Param (pname: string) (poptional: bool) (ptype: ty)

fun accepts_args :: "bool \<Rightarrow> param list \<Rightarrow> val list \<Rightarrow> bool" where
  "accepts_args strict [] [] = True"
| "accepts_args strict [] (v # vs) = False"
| "accepts_args strict (p # ps) [] = (poptional p \<and> accepts_args strict ps [])"
| "accepts_args strict (p # ps) (v # vs) =
     (((poptional p \<and> v = VUndefined) \<or> has_type strict v (ptype p))
      \<and> accepts_args strict ps vs)"

record call_signature =
  params :: "param list"
  returns :: ty

definition callable :: "bool \<Rightarrow> call_signature \<Rightarrow> val list \<Rightarrow> bool" where
  "callable strict sg args = accepts_args strict (params sg) args"

text \<open>The type of a call expression: the declared return type, when the call is admitted.\<close>

definition call_result :: "bool \<Rightarrow> call_signature \<Rightarrow> val list \<Rightarrow> ty option" where
  "call_result strict sg args = (if callable strict sg args then Some (returns sg) else None)"

text \<open>
  \<open>class C extends B { members; constructor(...) }\<close>: the instance type has the
  members of the base class and the declared ones; \<open>new C(...)\<close> is a call of the
  constructor's parameter list that returns an instance.
\<close>

record class_decl =
  superclass :: "member list"
  cmembers :: "member list"
  ctor :: "param list"

definition instance_type :: "class_decl \<Rightarrow> ty" where
  "instance_type c = TObject (superclass c @ cmembers c)"

definition construct_signature :: "class_decl \<Rightarrow> call_signature" where
  "construct_signature c = \<lparr>params = ctor c, returns = instance_type c\<rparr>"

subsection \<open>The imported names that are only mentioned\<close>

definition DataType :: ty where
  "DataType = TRef ''DataType'' []"

definition SingleAssociationAccessors :: ty where
  "SingleAssociationAccessors = TRef ''SingleAssociationAccessors'' []"

definition Promise :: "ty \<Rightarrow> ty" where
  "Promise t = TRef ''Promise'' [t]"

text \<open>The type a promise resolves to.\<close>

fun awaited :: "ty \<Rightarrow> ty option" where
  "awaited (TRef n [t]) = (if n = ''Promise'' then Some t else None)"
| "awaited _ = None"

text \<open>
  \<open>Partial<T>\<close> of the standard library, \<open>{ [P in keyof T]?: T[P] }\<close>: every member
  of an object type becomes optional. It distributes over a union and leaves a
  primitive type as it is; on an opaque type it stays an application, \<open>TPartial\<close>.
\<close>

fun Partial :: "ty \<Rightarrow> ty" where
  "Partial (TObject ms) = TObject (map (\<lambda>m. Member (mname m) True (mtype m)) ms)"
| "Partial (TUnion a b) = TUnion (Partial a) (Partial b)"
| "Partial (TRef n as) = TPartial (TRef n as)"
| "Partial (TPartial t) = TPartial t"
| "Partial t = t"

subsection \<open>The declarations of the file, in its order\<close>

text \<open>
  \<^verbatim>\<open>export interface BelongsToOptions extends AssociationOptions {
    targetKey?: string;
    keyType?: DataType;
  }\<close>
\<close>

definition BelongsToOptions :: "member list \<Rightarrow> interface_decl" where
  "BelongsToOptions AssociationOptions =
     \<lparr>heritage = [AssociationOptions],
      body = [Member ''targetKey'' True TString,
              Member ''keyType'' True DataType]\<rparr>"

text \<open>
  \<^verbatim>\<open>export class BelongsTo<TSource extends Model<Instance>, TTarget extends Model<Instance>>
      extends Association<TSource, TTarget> {
    accessors: SingleAssociationAccessors;
    constructor(source: TSource, target: TTarget, options: BelongsToOptions);
  }\<close>
\<close>

definition BelongsTo ::
  "(ty \<Rightarrow> ty \<Rightarrow> member list) \<Rightarrow> member list \<Rightarrow> ty \<Rightarrow> ty \<Rightarrow> class_decl" where
  "BelongsTo Association AssociationOptions TSource TTarget =
     \<lparr>superclass = Association TSource TTarget,
      cmembers = [Member ''accessors'' False SingleAssociationAccessors],
      ctor = [Param ''source'' False TSource,
              Param ''target'' False TTarget,
              Param ''options'' False
                (interface_type (BelongsToOptions AssociationOptions))]\<rparr>"

text \<open>
  \<^verbatim>\<open>export interface BelongsToGetAssociationMixinOptions {
    scope?: string | boolean;
  }\<close>
\<close>

definition BelongsToGetAssociationMixinOptions :: interface_decl where
  "BelongsToGetAssociationMixinOptions =
     \<lparr>heritage = [],
      body = [Member ''scope'' True (TUnion TString TBoolean)]\<rparr>"

text \<open>
  \<^verbatim>\<open>export interface BelongsToGetAssociationMixin<TInstance extends Instance> {
    (options?: BelongsToGetAssociationMixinOptions): Promise<TInstance>
  }\<close>
\<close>

definition BelongsToGetAssociationMixin :: "ty \<Rightarrow> call_signature" where
  "BelongsToGetAssociationMixin TInstance =
     \<lparr>params = [Param ''options'' True
                  (interface_type BelongsToGetAssociationMixinOptions)],
      returns = Promise TInstance\<rparr>"

text \<open>
  \<^verbatim>\<open>export interface BelongsToSetAssociationMixinOptions<TInstance extends Instance>
      extends SaveOptions<TInstance> {
    save?: boolean;
  }\<close>
\<close>

definition BelongsToSetAssociationMixinOptions ::
  "(ty \<Rightarrow> member list) \<Rightarrow> ty \<Rightarrow> interface_decl" where
  "BelongsToSetAssociationMixinOptions SaveOptions TInstance =
     \<lparr>heritage = [SaveOptions TInstance],
      body = [Member ''save'' True TBoolean]\<rparr>"

text \<open>
  \<^verbatim>\<open>export interface BelongsToSetAssociationMixin<TInstance extends Instance, TPrimaryKey> {
    (newAssociation?: TInstance | TPrimaryKey,
     options?: BelongsToSetAssociationMixinOptions<TInstance>): Promise<void>
  }\<close>
  Its documentation comment reads: "An instance or the primary key of an instance to
  associate with this. Pass null or undefined to remove the association."
\<close>

definition BelongsToSetAssociationMixin ::
  "(ty \<Rightarrow> member list) \<Rightarrow> ty \<Rightarrow> ty \<Rightarrow> call_signature" where
  "BelongsToSetAssociationMixin SaveOptions TInstance TPrimaryKey =
     \<lparr>params = [Param ''newAssociation'' True (TUnion TInstance TPrimaryKey),
                Param ''options'' True
                  (interface_type (BelongsToSetAssociationMixinOptions SaveOptions TInstance))],
      returns = Promise TVoid\<rparr>"

text \<open>
  \<^verbatim>\<open>export interface BelongsToCreateAssociationMixinOptions<TModel extends Model<TInstance>,
      TInstance extends Instance>
    extends CreateOptions<TModel, TInstance>, BelongsToSetAssociationMixinOptions<TInstance> { }\<close>
\<close>

definition BelongsToCreateAssociationMixinOptions ::
  "(ty \<Rightarrow> ty \<Rightarrow> member list) \<Rightarrow> (ty \<Rightarrow> member list) \<Rightarrow> ty \<Rightarrow> ty \<Rightarrow> interface_decl" where
  "BelongsToCreateAssociationMixinOptions CreateOptions SaveOptions TModel TInstance =
     \<lparr>heritage = [CreateOptions TModel TInstance,
                  members_of (BelongsToSetAssociationMixinOptions SaveOptions TInstance)],
      body = []\<rparr>"

text \<open>
  \<^verbatim>\<open>export interface BelongsToCreateAssociationMixin<TModel extends Model<TInstance>,
      TInstance extends Instance> {
    (values?: Partial<TInstance>,
     options?: BelongsToCreateAssociationMixinOptions<TModel, TInstance>): Promise<TInstance>
  }\<close>
\<close>

definition BelongsToCreateAssociationMixin ::
  "(ty \<Rightarrow> ty \<Rightarrow> member list) \<Rightarrow> (ty \<Rightarrow> member list) \<Rightarrow> ty \<Rightarrow> ty \<Rightarrow> call_signature" where
  "BelongsToCreateAssociationMixin CreateOptions SaveOptions TModel TInstance =
     \<lparr>params = [Param ''values'' True (Partial TInstance),
                Param ''options'' True
                  (interface_type
                    (BelongsToCreateAssociationMixinOptions CreateOptions SaveOptions
                      TModel TInstance))],
      returns = Promise TInstance\<rparr>"

text \<open>
  The export table of the module: every declaration above is exported under its own
  name, and \<^verbatim>\<open>export default BelongsTo;\<close> binds the name \<open>default\<close>.
\<close>

definition module_exports :: "(string \<times> string) list" where
  "module_exports =
     [(''BelongsToOptions'', ''BelongsToOptions''),
      (''BelongsTo'', ''BelongsTo''),
      (''BelongsToGetAssociationMixinOptions'', ''BelongsToGetAssociationMixinOptions''),
      (''BelongsToGetAssociationMixin'', ''BelongsToGetAssociationMixin''),
      (''BelongsToSetAssociationMixinOptions'', ''BelongsToSetAssociationMixinOptions''),
      (''BelongsToSetAssociationMixin'', ''BelongsToSetAssociationMixin''),
      (''BelongsToCreateAssociationMixinOptions'', ''BelongsToCreateAssociationMixinOptions''),
      (''BelongsToCreateAssociationMixin'', ''BelongsToCreateAssociationMixin''),
      (''default'', ''BelongsTo'')]"

section \<open>Properties\<close>

subsection \<open>The semantics of interfaces\<close>

lemma lenient_simps:
  "lenient strict VUndefined = (\<not> strict)"
  "lenient strict VNull = (\<not> strict)"
  "lenient strict (VStr s) = False"
  "lenient strict (VNum n) = False"
  "lenient strict (VBool b) = False"
  "lenient strict (VObj fs) = False"
  "lenient strict (VOpaque m bs) = False"
  by (simp_all add: lenient_def)

lemma has_members_append:
  "has_members strict fs (xs @ ys) = (has_members strict fs xs \<and> has_members strict fs ys)"
  by (induction xs) auto

lemma has_type_object_append:
  "has_type strict v (TObject (xs @ ys)) =
     (has_type strict v (TObject xs) \<and> has_type strict v (TObject ys))"
  by (cases v) (auto simp add: has_members_append)

lemma has_members_iff:
  "has_members strict fs ms = list_all (has_member strict fs) ms"
  by (induction ms) auto

lemma nullish_has_type_lenient:
  "nullish v \<Longrightarrow> has_type False v t"
proof (induction t)
  case (TUnion a b)
  then show ?case by simp
qed (auto simp add: lenient_def split: val.splits)

lemma map_of_filter_fst:
  "map_of (filter (\<lambda>p. keep (fst p)) fs) n = (if keep n then map_of fs n else None)"
  by (induction fs) auto

text \<open>
  Dropping properties from an object that has the members \<open>ms\<close> leaves an object that
  has them as optional members.
\<close>

lemma has_members_partial:
  "has_members strict fs ms \<Longrightarrow>
   has_members strict (filter (\<lambda>p. keep (fst p)) fs)
     (map (\<lambda>m. Member (mname m) True (mtype m)) ms)"
proof (induction ms)
  case Nil
  then show ?case by simp
next
  case (Cons m ms)
  then show ?case
    by (cases m) (auto simp add: map_of_filter_fst split: option.splits)
qed

text \<open>
  A record with the members \<open>ms\<close>, all made optional, has each of them as an optional
  member: a property it gives must be of the declared type, or \<open>undefined\<close>.
\<close>

lemma has_members_partial_member:
  "has_members strict fs (map (\<lambda>m. Member (mname m) True (mtype m)) ms) \<Longrightarrow>
   Member n opt t \<in> set ms \<Longrightarrow> has_member strict fs (Member n True t)"
proof -
  assume "has_members strict fs (map (\<lambda>m. Member (mname m) True (mtype m)) ms)"
    and "Member n opt t \<in> set ms"
  then have "has_member strict fs
      (Member (mname (Member n opt t)) True (mtype (Member n opt t)))"
    unfolding has_members_iff list_all_iff by (simp del: has_member.simps member.sel)
  then show ?thesis by (simp only: member.sel)
qed

subsection \<open>The options of the create mixin\<close>

text \<open>
  Claim C1. The members of \<open>BelongsToCreateAssociationMixinOptions\<close> are exactly those
  of \<open>CreateOptions<TModel, TInstance>\<close> together with those of
  \<open>BelongsToSetAssociationMixinOptions<TInstance>\<close>; its own body is empty. A value is
  of the create options type exactly when it is of both parent types. This holds for
  every \<open>CreateOptions\<close> and \<open>SaveOptions\<close> the imports may declare.
\<close>

theorem create_options_are_union:
  "set (members_of (BelongsToCreateAssociationMixinOptions CO SO TModel TInstance)) =
     set (CO TModel TInstance) \<union>
     set (members_of (BelongsToSetAssociationMixinOptions SO TInstance))
   \<and> body (BelongsToCreateAssociationMixinOptions CO SO TModel TInstance) = []
   \<and> has_type strict v
        (interface_type (BelongsToCreateAssociationMixinOptions CO SO TModel TInstance)) =
       (has_type strict v (TObject (CO TModel TInstance)) \<and>
        has_type strict v
          (interface_type (BelongsToSetAssociationMixinOptions SO TInstance)))"
proof (intro conjI)
  show "set (members_of (BelongsToCreateAssociationMixinOptions CO SO TModel TInstance)) =
     set (CO TModel TInstance) \<union>
     set (members_of (BelongsToSetAssociationMixinOptions SO TInstance))"
    by (simp add: BelongsToCreateAssociationMixinOptions_def members_of_def)
  show "body (BelongsToCreateAssociationMixinOptions CO SO TModel TInstance) = []"
    by (simp add: BelongsToCreateAssociationMixinOptions_def)
  have "members_of (BelongsToCreateAssociationMixinOptions CO SO TModel TInstance) =
      CO TModel TInstance @ members_of (BelongsToSetAssociationMixinOptions SO TInstance)"
    by (simp add: BelongsToCreateAssociationMixinOptions_def members_of_def)
  then show "has_type strict v
        (interface_type (BelongsToCreateAssociationMixinOptions CO SO TModel TInstance)) =
       (has_type strict v (TObject (CO TModel TInstance)) \<and>
        has_type strict v
          (interface_type (BelongsToSetAssociationMixinOptions SO TInstance)))"
    unfolding interface_type_def by (simp only: has_type_object_append)
qed

subsection \<open>The first argument of the set mixin\<close>

text \<open>
  What the declared parameter \<open>newAssociation?: TInstance | TPrimaryKey\<close> admits: no
  argument, \<open>undefined\<close>, an instance, a primary key, whatever the compiler option.
\<close>

lemma set_association_accepts:
  "callable strict (BelongsToSetAssociationMixin SO TInstance TPrimaryKey) []"
  "callable strict (BelongsToSetAssociationMixin SO TInstance TPrimaryKey) [VUndefined]"
  "has_type strict v TInstance \<Longrightarrow>
     callable strict (BelongsToSetAssociationMixin SO TInstance TPrimaryKey) [v]"
  "has_type strict v TPrimaryKey \<Longrightarrow>
     callable strict (BelongsToSetAssociationMixin SO TInstance TPrimaryKey) [v]"
  by (simp_all add: callable_def BelongsToSetAssociationMixin_def)

text \<open>
  \<open>null\<close> is admitted exactly when one of the two type arguments admits it: always
  without \<open>strictNullChecks\<close>, and with it only if \<open>TInstance\<close> or \<open>TPrimaryKey\<close> was
  instantiated with a type that includes \<open>null\<close>.
\<close>

lemma set_association_null_iff:
  "callable strict (BelongsToSetAssociationMixin SO TInstance TPrimaryKey) [VNull] =
     (has_type strict VNull TInstance \<or> has_type strict VNull TPrimaryKey)"
  by (simp add: callable_def BelongsToSetAssociationMixin_def)

lemma set_association_accepts_null_lenient:
  "callable False (BelongsToSetAssociationMixin SO TInstance TPrimaryKey) [VNull]"
  by (simp add: set_association_null_iff nullish_has_type_lenient)

text \<open>
  Claim C2. The claim is that every call of the set mixin may pass an instance, a
  primary key, \<open>undefined\<close> or \<open>null\<close> as its first argument. The first three hold
  (\<open>set_association_accepts\<close>). The last does not: under \<open>strictNullChecks\<close>, with an
  instance type \<open>{ id: number }\<close> and the primary key type \<open>number\<close>, the declared
  signature refuses \<open>setRole(null)\<close>, although the documentation comment of the
  parameter says "Pass null or undefined to remove the association".
\<close>

theorem set_association_rejects_null_strict:
  "\<not> callable True
       (BelongsToSetAssociationMixin (\<lambda>_. []) (TObject [Member ''id'' False TNumber]) TNumber)
       [VNull]"
  by (simp add: callable_def BelongsToSetAssociationMixin_def lenient_simps)

subsection \<open>The get mixin\<close>

text \<open>
  Claim C3. The get mixin may be called with no argument, with \<open>undefined\<close>, with an
  empty options record, or with an options record whose \<open>scope\<close> is a string or a
  boolean; a \<open>scope\<close> of another type and a second argument are refused. The options
  interface declares the one member \<open>scope?: string | boolean\<close>, and the call returns
  a promise that resolves to \<open>TInstance\<close>.
\<close>

theorem get_mixin_signature:
  "callable strict (BelongsToGetAssociationMixin TInstance) []
   \<and> callable strict (BelongsToGetAssociationMixin TInstance) [VUndefined]
   \<and> callable strict (BelongsToGetAssociationMixin TInstance) [VObj []]
   \<and> callable strict (BelongsToGetAssociationMixin TInstance) [VObj [(''scope'', VStr s)]]
   \<and> callable strict (BelongsToGetAssociationMixin TInstance) [VObj [(''scope'', VBool b)]]
   \<and> \<not> callable strict (BelongsToGetAssociationMixin TInstance) [VObj [(''scope'', VNum n)]]
   \<and> \<not> callable strict (BelongsToGetAssociationMixin TInstance) [x, y]
   \<and> members_of BelongsToGetAssociationMixinOptions =
        [Member ''scope'' True (TUnion TString TBoolean)]
   \<and> call_result strict (BelongsToGetAssociationMixin TInstance) [] = Some (Promise TInstance)
   \<and> awaited (returns (BelongsToGetAssociationMixin TInstance)) = Some TInstance"
  by (simp add: callable_def call_result_def BelongsToGetAssociationMixin_def
      BelongsToGetAssociationMixinOptions_def members_of_def interface_type_def
      lenient_simps Promise_def)

subsection \<open>The options of belongsTo\<close>

text \<open>
  Claim C4. \<open>BelongsToOptions\<close> declares \<open>targetKey?: string\<close> and
  \<open>keyType?: DataType\<close>, both optional. So an options record that satisfies the
  inherited \<open>AssociationOptions\<close>, has only declared properties and supplies neither
  of the two is of type \<open>BelongsToOptions\<close>; so is one that supplies a string
  \<open>targetKey\<close>, while a numeric \<open>targetKey\<close> is refused. (That a missing \<open>targetKey\<close>
  means the target's primary key is the documentation comment's note on the library;
  the file declares no default.)
\<close>

theorem belongs_to_options_keys_optional:
  "body (BelongsToOptions AO) =
     [Member ''targetKey'' True TString, Member ''keyType'' True DataType]
   \<and> list_all optional (body (BelongsToOptions AO))
   \<and> (has_members strict fs AO \<and>
       declared_only fs (members_of (BelongsToOptions AO)) \<and>
       map_of fs ''targetKey'' = None \<and> map_of fs ''keyType'' = None
        \<longrightarrow> has_type strict (VObj fs) (interface_type (BelongsToOptions AO)))
   \<and> (has_members strict ((''targetKey'', VStr k) # fs) AO \<and>
       declared_only fs (members_of (BelongsToOptions AO)) \<and>
       map_of fs ''keyType'' = None
        \<longrightarrow> has_type strict (VObj ((''targetKey'', VStr k) # fs))
              (interface_type (BelongsToOptions AO)))
   \<and> \<not> has_type strict (VObj ((''targetKey'', VNum n) # fs))
         (interface_type (BelongsToOptions AO))"
  by (simp add: BelongsToOptions_def interface_type_def members_of_def has_members_append
      lenient_simps)

theorem belongs_to_options_keys_optional_witness:
  "has_members True [(''as'', VStr ''role'')]
     [Member ''as'' True TString, Member ''foreignKey'' True TString]
   \<and> declared_only [(''as'', VStr ''role'')]
       (members_of
         (BelongsToOptions [Member ''as'' True TString, Member ''foreignKey'' True TString]))
   \<and> has_type True (VObj [(''as'', VStr ''role'')])
        (interface_type
          (BelongsToOptions [Member ''as'' True TString, Member ''foreignKey'' True TString]))
   \<and> has_type True (VObj [(''targetKey'', VStr ''uuid''), (''as'', VStr ''role'')])
        (interface_type
          (BelongsToOptions [Member ''as'' True TString, Member ''foreignKey'' True TString]))
   \<and> \<not> has_type True (VObj [(''targetKey'', VNum 1), (''as'', VStr ''role'')])
        (interface_type
          (BelongsToOptions [Member ''as'' True TString, Member ''foreignKey'' True TString]))
   \<and> \<not> declared_only [(''extra'', VNum 1)]
       (members_of
         (BelongsToOptions [Member ''as'' True TString, Member ''foreignKey'' True TString]))"
proof -
  have d: "declared_only [(''as'', VStr ''role'')]
       (members_of
         (BelongsToOptions [Member ''as'' True TString, Member ''foreignKey'' True TString]))"
    by (simp add: declared_only_def members_of_def BelongsToOptions_def)
  have e: "\<not> declared_only [(''extra'', VNum 1)]
       (members_of
         (BelongsToOptions [Member ''as'' True TString, Member ''foreignKey'' True TString]))"
    by (simp add: declared_only_def members_of_def BelongsToOptions_def)
  show ?thesis
    using d e belongs_to_options_keys_optional
      [of "[Member ''as'' True TString, Member ''foreignKey'' True TString]" True
          "[(''as'', VStr ''role'')]" "''uuid''" 1]
    by simp
qed

subsection \<open>The options of the set mixin\<close>

text \<open>
  Claim C5. \<open>BelongsToSetAssociationMixinOptions<TInstance>\<close> extends
  \<open>SaveOptions<TInstance>\<close> and its body is the single member \<open>save?: boolean\<close>: its
  members are the save options and \<open>save\<close>, and an object is of the type exactly when
  it has the save options' members and its \<open>save\<close>, if present, is \<open>undefined\<close> or a
  boolean.
\<close>

theorem set_options_extend_save_options:
  "heritage (BelongsToSetAssociationMixinOptions SO TInstance) = [SO TInstance]
   \<and> body (BelongsToSetAssociationMixinOptions SO TInstance) = [Member ''save'' True TBoolean]
   \<and> set (members_of (BelongsToSetAssociationMixinOptions SO TInstance)) =
       set (SO TInstance) \<union> {Member ''save'' True TBoolean}
   \<and> has_type strict (VObj fs)
        (interface_type (BelongsToSetAssociationMixinOptions SO TInstance)) =
       (has_members strict fs (SO TInstance) \<and>
        (case map_of fs ''save'' of
           None \<Rightarrow> True
         | Some v \<Rightarrow> v = VUndefined \<or> has_type strict v TBoolean))"
  by (simp add: BelongsToSetAssociationMixinOptions_def interface_type_def members_of_def
      has_members_append split: option.splits)

subsection \<open>The result of the set mixin\<close>

text \<open>
  Claim C6. Every admitted call of the set mixin has the type \<open>Promise<void>\<close>,
  whatever its arguments; the calls with no argument, with one and with two are
  admitted; the promise resolves to \<open>void\<close>.
\<close>

theorem set_mixin_returns_promise_of_void:
  "call_result strict (BelongsToSetAssociationMixin SO TInstance TPrimaryKey) args =
     (if callable strict (BelongsToSetAssociationMixin SO TInstance TPrimaryKey) args
      then Some (Promise TVoid) else None)
   \<and> call_result strict (BelongsToSetAssociationMixin SO TInstance TPrimaryKey) [] =
       Some (Promise TVoid)
   \<and> call_result strict (BelongsToSetAssociationMixin SO TInstance TPrimaryKey) [VUndefined] =
       Some (Promise TVoid)
   \<and> call_result strict (BelongsToSetAssociationMixin SO TInstance TPrimaryKey)
        [VUndefined, VUndefined] = Some (Promise TVoid)
   \<and> awaited (returns (BelongsToSetAssociationMixin SO TInstance TPrimaryKey)) = Some TVoid"
  by (simp add: call_result_def callable_def BelongsToSetAssociationMixin_def Promise_def)

subsection \<open>The create mixin\<close>

text \<open>
  Claim C7. Both parameters of the create mixin are optional: the calls with no
  argument, one and two are admitted and have the type \<open>Promise<TInstance>\<close>, which
  resolves to \<open>TInstance\<close>; a third argument is refused. The first parameter is
  \<open>Partial<TInstance>\<close>, a partial set of the instance's attribute values:
  \<^item> for an object type \<open>TInstance\<close> the empty record is admitted, and so is every
    record obtained from an instance with declared properties only by keeping some
    of its properties;
  \<^item> a record that gives a number for a string attribute, or a string for a number
    attribute, is refused;
  \<^item> for an imported instance type the empty record and an instance are admitted.
  The second parameter is the create options: a record whose \<open>save\<close> is a number is
  refused.
\<close>

theorem create_mixin_signature:
  "call_result strict (BelongsToCreateAssociationMixin CO SO TModel TInstance) [] =
     Some (Promise TInstance)
   \<and> call_result strict (BelongsToCreateAssociationMixin CO SO TModel TInstance) [VUndefined] =
       Some (Promise TInstance)
   \<and> call_result strict (BelongsToCreateAssociationMixin CO SO TModel TInstance)
        [VUndefined, VUndefined] = Some (Promise TInstance)
   \<and> list_all poptional (params (BelongsToCreateAssociationMixin CO SO TModel TInstance))
   \<and> awaited (returns (BelongsToCreateAssociationMixin CO SO TModel TInstance)) =
       Some TInstance
   \<and> \<not> callable strict (BelongsToCreateAssociationMixin CO SO TModel TInstance) [x, y, z]
   \<and> callable strict (BelongsToCreateAssociationMixin CO SO TModel (TObject ms)) [VObj []]
   \<and> (has_type strict (VObj fs) (TObject ms) \<and> declared_only fs ms \<longrightarrow>
        callable strict (BelongsToCreateAssociationMixin CO SO TModel (TObject ms))
          [VObj (filter (\<lambda>p. keep (fst p)) fs)])
   \<and> (Member a opt TString \<in> set ms \<longrightarrow>
        \<not> callable strict (BelongsToCreateAssociationMixin CO SO TModel (TObject ms))
            [VObj ((a, VNum i) # gs)])
   \<and> (Member a opt TNumber \<in> set ms \<longrightarrow>
        \<not> callable strict (BelongsToCreateAssociationMixin CO SO TModel (TObject ms))
            [VObj ((a, VStr w) # gs)])
   \<and> callable strict (BelongsToCreateAssociationMixin CO SO TModel (TRef r ts)) [VObj []]
   \<and> callable strict (BelongsToCreateAssociationMixin CO SO TModel (TRef r ts))
       [VOpaque r ts]
   \<and> \<not> callable strict (BelongsToCreateAssociationMixin CO SO TModel TInstance)
         [VUndefined, VObj ((''save'', VNum i) # gs)]"
proof -
  let ?opt = "map (\<lambda>m. Member (mname m) True (mtype m)) ms"
  have sub: "has_type strict (VObj fs) (TObject ms) \<and> declared_only fs ms \<longrightarrow>
        callable strict (BelongsToCreateAssociationMixin CO SO TModel (TObject ms))
          [VObj (filter (\<lambda>p. keep (fst p)) fs)]"
    by (simp add: callable_def BelongsToCreateAssociationMixin_def has_members_partial)
  have empty: "callable strict (BelongsToCreateAssociationMixin CO SO TModel (TObject ms))
      [VObj []]"
    by (simp add: callable_def BelongsToCreateAssociationMixin_def has_members_iff
        list_all_iff)
  have num: "Member a opt TString \<in> set ms \<longrightarrow>
        \<not> callable strict (BelongsToCreateAssociationMixin CO SO TModel (TObject ms))
            [VObj ((a, VNum i) # gs)]"
  proof
    assume m: "Member a opt TString \<in> set ms"
    show "\<not> callable strict (BelongsToCreateAssociationMixin CO SO TModel (TObject ms))
            [VObj ((a, VNum i) # gs)]"
    proof
      assume "callable strict (BelongsToCreateAssociationMixin CO SO TModel (TObject ms))
            [VObj ((a, VNum i) # gs)]"
      then have "has_members strict ((a, VNum i) # gs) ?opt"
        by (simp add: callable_def BelongsToCreateAssociationMixin_def)
      then have "has_member strict ((a, VNum i) # gs) (Member a True TString)"
        using m by (rule has_members_partial_member)
      then show False by (simp add: lenient_simps)
    qed
  qed
  have str: "Member a opt TNumber \<in> set ms \<longrightarrow>
        \<not> callable strict (BelongsToCreateAssociationMixin CO SO TModel (TObject ms))
            [VObj ((a, VStr w) # gs)]"
  proof
    assume m: "Member a opt TNumber \<in> set ms"
    show "\<not> callable strict (BelongsToCreateAssociationMixin CO SO TModel (TObject ms))
            [VObj ((a, VStr w) # gs)]"
    proof
      assume "callable strict (BelongsToCreateAssociationMixin CO SO TModel (TObject ms))
            [VObj ((a, VStr w) # gs)]"
      then have "has_members strict ((a, VStr w) # gs) ?opt"
        by (simp add: callable_def BelongsToCreateAssociationMixin_def)
      then have "has_member strict ((a, VStr w) # gs) (Member a True TNumber)"
        using m by (rule has_members_partial_member)
      then show False by (simp add: lenient_simps)
    qed
  qed
  have ref: "callable strict (BelongsToCreateAssociationMixin CO SO TModel (TRef r ts)) [VObj []]
      \<and> callable strict (BelongsToCreateAssociationMixin CO SO TModel (TRef r ts))
          [VOpaque r ts]"
    by (simp add: callable_def BelongsToCreateAssociationMixin_def)
  have opts: "\<not> callable strict (BelongsToCreateAssociationMixin CO SO TModel TInstance)
         [VUndefined, VObj ((''save'', VNum i) # gs)]"
    by (simp add: callable_def BelongsToCreateAssociationMixin_def interface_type_def
        BelongsToCreateAssociationMixinOptions_def BelongsToSetAssociationMixinOptions_def
        members_of_def has_members_append lenient_simps)
  have rest: "call_result strict (BelongsToCreateAssociationMixin CO SO TModel TInstance) [] =
       Some (Promise TInstance)
     \<and> call_result strict (BelongsToCreateAssociationMixin CO SO TModel TInstance)
         [VUndefined] = Some (Promise TInstance)
     \<and> call_result strict (BelongsToCreateAssociationMixin CO SO TModel TInstance)
          [VUndefined, VUndefined] = Some (Promise TInstance)
     \<and> list_all poptional (params (BelongsToCreateAssociationMixin CO SO TModel TInstance))
     \<and> awaited (returns (BelongsToCreateAssociationMixin CO SO TModel TInstance)) =
         Some TInstance
     \<and> \<not> callable strict (BelongsToCreateAssociationMixin CO SO TModel TInstance) [x, y, z]"
    by (simp add: call_result_def callable_def BelongsToCreateAssociationMixin_def Promise_def)
  from rest empty sub num str ref opts show ?thesis by blast
qed

theorem create_mixin_signature_witness:
  "has_type True (VObj [(''id'', VNum 1), (''name'', VStr ''admin'')])
     (TObject [Member ''id'' False TNumber, Member ''name'' False TString])
   \<and> declared_only [(''id'', VNum 1), (''name'', VStr ''admin'')]
       [Member ''id'' False TNumber, Member ''name'' False TString]
   \<and> callable True
       (BelongsToCreateAssociationMixin (\<lambda>_ _. []) (\<lambda>_. []) TAny
          (TObject [Member ''id'' False TNumber, Member ''name'' False TString]))
       [VObj [(''name'', VStr ''admin'')]]
   \<and> \<not> callable True
       (BelongsToCreateAssociationMixin (\<lambda>_ _. []) (\<lambda>_. []) TAny
          (TObject [Member ''id'' False TNumber, Member ''name'' False TString]))
       [VObj [(''name'', VNum 5)]]
   \<and> \<not> callable True
       (BelongsToCreateAssociationMixin (\<lambda>_ _. []) (\<lambda>_. []) TAny
          (TObject [Member ''id'' False TNumber, Member ''name'' False TString]))
       [VObj [(''id'', VStr ''one'')]]
   \<and> \<not> has_type True (VObj [(''name'', VStr ''admin'')])
       (TObject [Member ''id'' False TNumber, Member ''name'' False TString])"
proof -
  have d: "declared_only [(''id'', VNum 1), (''name'', VStr ''admin'')]
       [Member ''id'' False TNumber, Member ''name'' False TString]"
    by (simp add: declared_only_def)
  have h: "has_type True (VObj [(''id'', VNum 1), (''name'', VStr ''admin'')])
     (TObject [Member ''id'' False TNumber, Member ''name'' False TString])"
    by simp
  have n: "\<not> has_type True (VObj [(''name'', VStr ''admin'')])
       (TObject [Member ''id'' False TNumber, Member ''name'' False TString])"
    by simp
  have a: "Member ''name'' False TString \<in>
      set [Member ''id'' False TNumber, Member ''name'' False TString]"
    by simp
  have b: "Member ''id'' False TNumber \<in>
      set [Member ''id'' False TNumber, Member ''name'' False TString]"
    by simp
  note t1 = create_mixin_signature
    [of True "\<lambda>_ _. []" "\<lambda>_. []" TAny
        "TObject [Member ''id'' False TNumber, Member ''name'' False TString]"
        VUndefined VUndefined VUndefined
        "[Member ''id'' False TNumber, Member ''name'' False TString]"
        "[(''id'', VNum 1), (''name'', VStr ''admin'')]"
        "\<lambda>n. n = ''name''" "''name''" False 5 "[]"]
  note t2 = create_mixin_signature
    [of True "\<lambda>_ _. []" "\<lambda>_. []" TAny
        "TObject [Member ''id'' False TNumber, Member ''name'' False TString]"
        VUndefined VUndefined VUndefined
        "[Member ''id'' False TNumber, Member ''name'' False TString]"
        "[(''id'', VNum 1), (''name'', VStr ''admin'')]"
        "\<lambda>n. n = ''name''" "''id''" False 5 "[]" "''one''"]
  have k: "callable True
       (BelongsToCreateAssociationMixin (\<lambda>_ _. []) (\<lambda>_. []) TAny
          (TObject [Member ''id'' False TNumber, Member ''name'' False TString]))
       [VObj [(''name'', VStr ''admin'')]]"
    using t1 d h by simp
  have r1: "\<not> callable True
       (BelongsToCreateAssociationMixin (\<lambda>_ _. []) (\<lambda>_. []) TAny
          (TObject [Member ''id'' False TNumber, Member ''name'' False TString]))
       [VObj [(''name'', VNum 5)]]"
    using t1 a by blast
  have r2: "\<not> callable True
       (BelongsToCreateAssociationMixin (\<lambda>_ _. []) (\<lambda>_. []) TAny
          (TObject [Member ''id'' False TNumber, Member ''name'' False TString]))
       [VObj [(''id'', VStr ''one'')]]"
    using t2 b by blast
  from h d k r1 r2 n show ?thesis by blast
qed

subsection \<open>The constructor of BelongsTo\<close>

text \<open>
  Claim C8. The constructor of \<open>BelongsTo\<close> has three parameters, none optional: a
  call with no argument, one or two is refused, whatever the arguments, although both
  members of the body of \<open>BelongsToOptions\<close> are optional. A call with a source, a
  target and an options record of their types is admitted.
\<close>

theorem belongs_to_constructor_needs_options:
  "\<not> callable strict (construct_signature (BelongsTo A AO TSource TTarget)) []
   \<and> \<not> callable strict (construct_signature (BelongsTo A AO TSource TTarget)) [s]
   \<and> \<not> callable strict (construct_signature (BelongsTo A AO TSource TTarget)) [s, t]
   \<and> map poptional (ctor (BelongsTo A AO TSource TTarget)) = [False, False, False]
   \<and> list_all optional (body (BelongsToOptions AO))
   \<and> (has_type strict s TSource \<and> has_type strict t TTarget \<and>
       has_type strict opts (interface_type (BelongsToOptions AO)) \<longrightarrow>
        callable strict (construct_signature (BelongsTo A AO TSource TTarget)) [s, t, opts])"
  by (simp add: callable_def construct_signature_def BelongsTo_def BelongsToOptions_def)

theorem belongs_to_constructor_needs_options_witness:
  "\<not> callable True
       (construct_signature
         (BelongsTo (\<lambda>_ _. []) [] (TRef ''UserModel'' []) (TRef ''RoleModel'' [])))
       [VOpaque ''UserModel'' [], VOpaque ''RoleModel'' []]
   \<and> callable True
       (construct_signature
         (BelongsTo (\<lambda>_ _. []) [] (TRef ''UserModel'' []) (TRef ''RoleModel'' [])))
       [VOpaque ''UserModel'' [], VOpaque ''RoleModel'' [], VObj []]"
  using belongs_to_constructor_needs_options
    [of True "\<lambda>_ _. []" "[]" "TRef ''UserModel'' []" "TRef ''RoleModel'' []"
        "VOpaque ''UserModel'' []" "VOpaque ''RoleModel'' []" "VObj []"]
  by (simp add: interface_type_def members_of_def BelongsToOptions_def)

subsection \<open>The create options carry the set options\<close>

text \<open>
  Claim C9. The create options have the member \<open>save?: boolean\<close>, every member of
  \<open>SaveOptions<TInstance>\<close> and every member of \<open>CreateOptions<TModel, TInstance>\<close>.
  So an options record that is of the set mixin's options type and of the create
  options' type may be passed to the create mixin, in particular a record with only
  a boolean \<open>save\<close> when the imported interfaces admit it.
\<close>

theorem create_options_include_set_options:
  "Member ''save'' True TBoolean \<in>
     set (members_of (BelongsToCreateAssociationMixinOptions CO SO TModel TInstance))
   \<and> set (SO TInstance) \<subseteq>
       set (members_of (BelongsToCreateAssociationMixinOptions CO SO TModel TInstance))
   \<and> set (CO TModel TInstance) \<subseteq>
       set (members_of (BelongsToCreateAssociationMixinOptions CO SO TModel TInstance))
   \<and> (has_type strict opts (TObject (CO TModel TInstance)) \<and>
       has_type strict opts (interface_type (BelongsToSetAssociationMixinOptions SO TInstance))
       \<longrightarrow> callable strict (BelongsToCreateAssociationMixin CO SO TModel TInstance)
             [VUndefined, opts])
   \<and> (has_members strict [(''save'', VBool b)] (CO TModel TInstance) \<and>
       has_members strict [(''save'', VBool b)] (SO TInstance)
       \<longrightarrow> callable strict (BelongsToCreateAssociationMixin CO SO TModel TInstance)
             [VUndefined, VObj [(''save'', VBool b)]])"
proof -
  have ms: "members_of (BelongsToCreateAssociationMixinOptions CO SO TModel TInstance) =
      CO TModel TInstance @ SO TInstance @ [Member ''save'' True TBoolean]"
    by (simp add: BelongsToCreateAssociationMixinOptions_def
        BelongsToSetAssociationMixinOptions_def members_of_def)
  have ss: "members_of (BelongsToSetAssociationMixinOptions SO TInstance) =
      SO TInstance @ [Member ''save'' True TBoolean]"
    by (simp add: BelongsToSetAssociationMixinOptions_def members_of_def)
  have sg: "params (BelongsToCreateAssociationMixin CO SO TModel TInstance) =
      [Param ''values'' True (Partial TInstance),
       Param ''options'' True
         (TObject (CO TModel TInstance @ SO TInstance @ [Member ''save'' True TBoolean]))]"
    by (simp add: BelongsToCreateAssociationMixin_def interface_type_def ms)
  show ?thesis
    unfolding callable_def sg interface_type_def ms ss
    by (cases opts) (auto simp add: has_members_append)
qed

theorem create_options_include_set_options_witness:
  "callable True
     (BelongsToCreateAssociationMixin (\<lambda>_ _. [Member ''silent'' True TBoolean])
        (\<lambda>_. [Member ''validate'' True TBoolean]) TAny (TObject []))
     [VUndefined, VObj [(''save'', VBool False), (''validate'', VBool True)]]
   \<and> callable True
     (BelongsToCreateAssociationMixin (\<lambda>_ _. [Member ''silent'' True TBoolean])
        (\<lambda>_. [Member ''validate'' True TBoolean]) TAny (TObject []))
     [VUndefined, VObj [(''save'', VBool False)]]"
  using create_options_include_set_options
    [of "\<lambda>_ _. [Member ''silent'' True TBoolean]" "\<lambda>_. [Member ''validate'' True TBoolean]"
        TAny "TObject []" True
        "VObj [(''save'', VBool False), (''validate'', VBool True)]" False]
  by (simp add: interface_type_def members_of_def BelongsToSetAssociationMixinOptions_def)

subsection \<open>The class and the default export\<close>

text \<open>
  Claim C10. Every value of the instance type of \<open>BelongsTo<TSource, TTarget>\<close> is of
  the instance type of \<open>Association<TSource, TTarget>\<close>, the class it extends; the
  class declares the member \<open>accessors: SingleAssociationAccessors\<close>, which every
  instance has; the constructor returns an instance; and the module's default export
  is \<open>BelongsTo\<close>.
\<close>

theorem belongs_to_is_association:
  "(has_type strict v (instance_type (BelongsTo A AO TSource TTarget)) \<longrightarrow>
      has_type strict v (TObject (A TSource TTarget)))
   \<and> superclass (BelongsTo A AO TSource TTarget) = A TSource TTarget
   \<and> cmembers (BelongsTo A AO TSource TTarget) =
       [Member ''accessors'' False SingleAssociationAccessors]
   \<and> (has_type strict (VObj fs) (instance_type (BelongsTo A AO TSource TTarget)) \<longrightarrow>
       has_member strict fs (Member ''accessors'' False SingleAssociationAccessors))
   \<and> returns (construct_signature (BelongsTo A AO TSource TTarget)) =
       instance_type (BelongsTo A AO TSource TTarget)
   \<and> map_of module_exports ''default'' = Some ''BelongsTo''"
proof -
  have inst: "instance_type (BelongsTo A AO TSource TTarget) =
      TObject (A TSource TTarget @ [Member ''accessors'' False SingleAssociationAccessors])"
    by (simp add: instance_type_def BelongsTo_def)
  have sub: "has_type strict v (instance_type (BelongsTo A AO TSource TTarget)) \<longrightarrow>
      has_type strict v (TObject (A TSource TTarget))"
    unfolding inst by (simp only: has_type_object_append) simp
  have acc: "has_type strict (VObj fs) (instance_type (BelongsTo A AO TSource TTarget)) \<longrightarrow>
       has_member strict fs (Member ''accessors'' False SingleAssociationAccessors)"
    unfolding inst by (simp add: has_members_append)
  show ?thesis
    using sub acc
    by (simp add: BelongsTo_def construct_signature_def module_exports_def)
qed

theorem belongs_to_is_association_witness:
  "has_type True
     (VObj [(''associationType'', VStr ''BelongsTo''),
            (''accessors'', VOpaque ''SingleAssociationAccessors'' [])])
     (instance_type (BelongsTo (\<lambda>_ _. [Member ''associationType'' False TString]) [] TAny TAny))
   \<and> has_type True
     (VObj [(''associationType'', VStr ''BelongsTo''),
            (''accessors'', VOpaque ''SingleAssociationAccessors'' [])])
     (TObject [Member ''associationType'' False TString])
   \<and> \<not> has_type True (VObj [(''associationType'', VStr ''BelongsTo'')])
     (instance_type (BelongsTo (\<lambda>_ _. [Member ''associationType'' False TString]) [] TAny TAny))"
  using belongs_to_is_association
    [of True "VObj [(''associationType'', VStr ''BelongsTo''),
            (''accessors'', VOpaque ''SingleAssociationAccessors'' [])]"
        "\<lambda>_ _. [Member ''associationType'' False TString]" "[]" TAny TAny
        "[(''associationType'', VStr ''BelongsTo'')]"]
  by (simp add: instance_type_def BelongsTo_def SingleAssociationAccessors_def lenient_simps)

end
